theory Spec2Isabelle
  imports Complex_Main "HOL-Library.Sublist"
begin

section \<open>The configuration entities of global-config.ts\<close>

text \<open>
  Every class of the file is a record whose fields have the types of the schema the class
  implements (\<open>t.TypeOf\<close> of the member of \<open>GlobalConfigTypes\<close>): a \<open>t.optional\<close> field
  is an \<open>option\<close> (\<open>None\<close> is the value \<open>undefined\<close>), a \<open>t.array\<close> is a list, a
  \<open>t.enums\<close> or string field is a \<open>string\<close>, a \<open>t.number\<close> is a \<open>real\<close> (the file never
  computes with a number). Several classes have a field called \<open>enable\<close> and two have a
  \<open>timeUnit\<close>; those fields carry their class as a prefix here.
\<close>

record ControlTowerConfig =
  controlTower_enable :: bool

record CloudtrailConfig =
  cloudtrail_enable :: bool
  organizationTrail :: bool

record SessionManagerConfig =
  sendToCloudWatchLogs :: bool
  sendToS3 :: bool
  excludeRegions :: "string list option"
  excludeAccounts :: "string list option"

record LoggingConfig =
  account :: string
  cloudtrail :: CloudtrailConfig
  sessionManager :: SessionManagerConfig

record IdentityPerimeterConfig =
  identityPerimeter_enable :: bool

record ResourcePerimeterConfig =
  resourcePerimeter_enable :: bool

record NetworkPerimeterConfig =
  networkPerimeter_enable :: bool

record DataProtectionConfig =
  dataProtection_enable :: bool
  identityPerimeter :: IdentityPerimeterConfig
  resourcePerimeter :: ResourcePerimeterConfig
  networkPerimeter :: NetworkPerimeterConfig

record CostAndUsageReportConfig =
  additionalSchemaElements :: "string list option"
  compression :: string
  format :: string
  reportName :: string
  s3Prefix :: string
  costAndUsageReport_timeUnit :: string
  additionalArtifacts :: "string list option"
  refreshClosedReports :: bool
  reportVersioning :: string

record NotificationConfig =
  notificationType :: string
  thresholdType :: string
  comparisonOperator :: string
  threshold :: "real option"

record BudgetReportConfig =
  amount :: real
  budgetName :: string
  budgetType :: string
  budgets_timeUnit :: string
  address :: "string option"
  includeUpfront :: "bool option"
  includeTax :: "bool option"
  includeSupport :: "bool option"
  includeSubscription :: "bool option"
  includeRecurring :: "bool option"
  includeOtherSubscription :: "bool option"
  includeCredit :: "bool option"
  includeDiscount :: "bool option"
  includeRefund :: "bool option"
  useAmortized :: "bool option"
  useBlended :: "bool option"
  notifications :: "NotificationConfig list option"
  subscriptionType :: string
  budgets_unit :: "string option"

record ReportConfig =
  costAndUsageReport :: "CostAndUsageReportConfig option"
  budgets :: "BudgetReportConfig option"

text \<open>
  \<open>GlobalConfig\<close> implements \<open>t.TypeOf<typeof GlobalConfigTypes.globalConfig>\<close>, which is
  also the type of the constructor's \<open>values\<close> argument and of what \<open>t.parse\<close> returns, so
  one record serves for the object and for the parsed values.
\<close>

record GlobalConfig =
  homeRegion :: string
  enabledRegions :: "string list"
  managementAccountAccessRole :: string
  cloudwatchLogRetentionInDays :: real
  controlTower :: ControlTowerConfig
  logging :: LoggingConfig
  dataProtection :: "DataProtectionConfig option"
  reports :: "ReportConfig option"

text \<open>The constructor's first argument, \<open>props: { homeRegion: string }\<close>.\<close>

record Props =
  props_homeRegion :: string

subsection \<open>The field initialisers of the classes\<close>

definition new_ControlTowerConfig :: ControlTowerConfig where
  "new_ControlTowerConfig = \<lparr>controlTower_enable = True\<rparr>"

definition new_CloudtrailConfig :: CloudtrailConfig where
  "new_CloudtrailConfig = \<lparr>cloudtrail_enable = False, organizationTrail = False\<rparr>"

definition new_SessionManagerConfig :: SessionManagerConfig where
  "new_SessionManagerConfig =
     \<lparr>sendToCloudWatchLogs = False, sendToS3 = False,
      excludeRegions = Some [], excludeAccounts = Some []\<rparr>"

definition new_LoggingConfig :: LoggingConfig where
  "new_LoggingConfig =
     \<lparr>account = ''LogArchive'',
      cloudtrail = new_CloudtrailConfig,
      sessionManager = new_SessionManagerConfig\<rparr>"

definition new_IdentityPerimeterConfig :: IdentityPerimeterConfig where
  "new_IdentityPerimeterConfig = \<lparr>identityPerimeter_enable = False\<rparr>"

definition new_ResourcePerimeterConfig :: ResourcePerimeterConfig where
  "new_ResourcePerimeterConfig = \<lparr>resourcePerimeter_enable = False\<rparr>"

definition new_NetworkPerimeterConfig :: NetworkPerimeterConfig where
  "new_NetworkPerimeterConfig = \<lparr>networkPerimeter_enable = False\<rparr>"

definition new_DataProtectionConfig :: DataProtectionConfig where
  "new_DataProtectionConfig =
     \<lparr>dataProtection_enable = False,
      identityPerimeter = new_IdentityPerimeterConfig,
      resourcePerimeter = new_ResourcePerimeterConfig,
      networkPerimeter = new_NetworkPerimeterConfig\<rparr>"

definition new_CostAndUsageReportConfig :: CostAndUsageReportConfig where
  "new_CostAndUsageReportConfig =
     \<lparr>additionalSchemaElements = Some [''''],
      compression = '''', format = '''', reportName = '''', s3Prefix = '''',
      costAndUsageReport_timeUnit = '''',
      additionalArtifacts = None,
      refreshClosedReports = True,
      reportVersioning = ''''\<rparr>"

definition new_BudgetReportConfig :: BudgetReportConfig where
  "new_BudgetReportConfig =
     \<lparr>amount = 2000, budgetName = '''', budgetType = '''', budgets_timeUnit = '''',
      address = Some '''',
      includeUpfront = Some True, includeTax = Some True, includeSupport = Some True,
      includeSubscription = Some True, includeRecurring = Some True,
      includeOtherSubscription = Some True,
      includeCredit = Some False, includeDiscount = Some True, includeRefund = Some False,
      useAmortized = Some False, useBlended = Some False,
      notifications =
        Some [\<lparr>notificationType = '''', thresholdType = '''', comparisonOperator = '''',
               threshold = Some 90\<rparr>],
      subscriptionType = '''',
      budgets_unit = Some ''''\<rparr>"

definition new_ReportConfig :: ReportConfig where
  "new_ReportConfig =
     \<lparr>costAndUsageReport = Some new_CostAndUsageReportConfig,
      budgets = Some new_BudgetReportConfig\<rparr>"

section \<open>The constructor of GlobalConfig\<close>

text \<open>
  What the file throws is \<open>new Error(message)\<close>; what a collaborator (fs, js-yaml,
  common-types) throws is foreign to the file and kept as its rendering \<open>${e}\<close>.
\<close>

datatype thrown = Error string | Foreign string

definition FILENAME :: string where
  "FILENAME = ''global-config.yaml''"

text \<open>
  \<open>${n}\<close> for a length: the decimal digits of a natural number. \<open>digit_char\<close> is
  only applied to a number below ten.
\<close>

definition digit_char :: "nat \<Rightarrow> char" where
  "digit_char d = ''0123456789'' ! d"

fun string_of_nat :: "nat \<Rightarrow> string" where
  "string_of_nat n =
     (if n < 10 then [digit_char n] else string_of_nat (n div 10) @ [digit_char (n mod 10)])"

text \<open>\<open>Array.prototype.join\<close> on an array of strings.\<close>

fun join :: "string \<Rightarrow> string list \<Rightarrow> string" where
  "join sep [] = ''''"
| "join sep [x] = x"
| "join sep (x # y # ys) = x @ sep @ join sep (y # ys)"

text \<open>
  \<open>if (values) { Object.assign(this, values); }\<close> seen from one field: the field keeps
  its initialiser when \<open>values\<close> is omitted and takes the value the parsed object has for
  it otherwise. \<open>Object.assign\<close> copies the properties of \<open>values\<close> one by one, so a
  nested object of \<open>values\<close> replaces the nested default object as a whole.
\<close>

definition assigned :: "'a \<Rightarrow> GlobalConfig option \<Rightarrow> (GlobalConfig \<Rightarrow> 'a) \<Rightarrow> 'a" where
  "assigned initialiser values field =
     (case values of None \<Rightarrow> initialiser | Some v \<Rightarrow> field v)"

text \<open>
  Lines 657 to 674: the list \<open>errors\<close>. Both \<open>homeRegion\<close> and
  \<open>cloudwatchLogRetentionInDays\<close> are required fields of the type of \<open>values\<close>, so
  \<open>values?.homeRegion !== undefined && values?.cloudwatchLogRetentionInDays !== undefined\<close>
  holds exactly when \<open>values\<close> is supplied.
\<close>

definition validation_errors :: "GlobalConfig option \<Rightarrow> string list" where
  "validation_errors values =
     (case values of
        None \<Rightarrow> []
      | Some v \<Rightarrow>
          if homeRegion v = ''us-gov-west-1'' \<or> homeRegion v = ''us-gov-east-1'' then
            (if homeRegion v \<noteq> ''us-gov-west-1''
             then [''The region us-gov-west-1 must be the home region.'']
             else [])
          else
            (if homeRegion v \<noteq> ''us-east-1'' \<and> ''us-east-1'' \<notin> set (enabledRegions v)
             then [''The region us-east-1 must be included in the list of enabled regions'']
             else []))"

text \<open>Line 677: the message of the one error the constructor throws.\<close>

definition issues_message :: "string list \<Rightarrow> string" where
  "issues_message errors =
     FILENAME @ '' has '' @ string_of_nat (length errors) @ '' issues: '' @ join '' '' errors"

text \<open>
  \<open>new GlobalConfig(props, values)\<close>. The object under construction starts from the field
  initialisers, receives the fields of \<open>values\<close> (lines 647 to 649), and then has
  \<open>homeRegion\<close> and \<open>enabledRegions\<close> assigned from \<open>props\<close> whatever \<open>values\<close> held
  (lines 651 and 652). A throw leaves no object: the result is \<open>Inl\<close>.
\<close>

definition new_GlobalConfig :: "Props \<Rightarrow> GlobalConfig option \<Rightarrow> thrown + GlobalConfig" where
  "new_GlobalConfig props values =
     (let this =
            \<lparr>homeRegion = props_homeRegion props,
             enabledRegions = [props_homeRegion props],
             managementAccountAccessRole =
               assigned ''AWSControlTowerExecution'' values managementAccountAccessRole,
             cloudwatchLogRetentionInDays = assigned 365 values cloudwatchLogRetentionInDays,
             controlTower = assigned new_ControlTowerConfig values controlTower,
             logging = assigned new_LoggingConfig values logging,
             dataProtection = assigned None values dataProtection,
             reports = assigned None values reports\<rparr>;
          errors = validation_errors values
      in if errors \<noteq> [] then Inl (Error (issues_message errors)) else Inr this)"

section \<open>The loaders\<close>

text \<open>
  A Generic Value: what the YAML deserializer returns, a tree of maps, lists and scalars.
  A mapping keeps its entries in order; a key is looked up with \<open>map_of\<close>.
\<close>

datatype generic =
    GNull
  | GBool bool
  | GNumber real
  | GString string
  | GList "generic list"
  | GMapping "(string \<times> generic) list"

text \<open>
  The descriptors that \<open>GlobalConfigTypes\<close> is built from, named as the file writes them
  (\<open>t.boolean\<close>, \<open>t.enums(name, values)\<close>, \<open>t.interface({...})\<close>, ...). The file gives
  an interface no name; the name an interface descriptor carries here is the name of the
  static member of \<open>GlobalConfigTypes\<close> that holds it.
\<close>

datatype descriptor =
    t_boolean
  | t_number
  | t_string
  | t_nonEmptyString
  | t_region
  | t_enums string "string list"
  | t_optional descriptor
  | t_array descriptor
  | t_interface string "(string \<times> descriptor) list"

subsection \<open>GlobalConfigTypes\<close>

definition controlTowerConfig :: descriptor where
  "controlTowerConfig = t_interface ''controlTowerConfig'' [(''enable'', t_boolean)]"

definition cloudtrailConfig :: descriptor where
  "cloudtrailConfig =
     t_interface ''cloudtrailConfig''
       [(''enable'', t_boolean),
        (''organizationTrail'', t_boolean)]"

definition sessionManagerConfig :: descriptor where
  "sessionManagerConfig =
     t_interface ''sessionManagerConfig''
       [(''sendToCloudWatchLogs'', t_boolean),
        (''sendToS3'', t_boolean),
        (''excludeRegions'', t_optional (t_array t_region)),
        (''excludeAccounts'', t_optional (t_array t_string))]"

definition loggingConfig :: descriptor where
  "loggingConfig =
     t_interface ''loggingConfig''
       [(''account'', t_nonEmptyString),
        (''cloudtrail'', cloudtrailConfig),
        (''sessionManager'', sessionManagerConfig)]"

definition identityPerimeterConfig :: descriptor where
  "identityPerimeterConfig = t_interface ''identityPerimeterConfig'' [(''enable'', t_boolean)]"

definition resourcePerimeterConfig :: descriptor where
  "resourcePerimeterConfig = t_interface ''resourcePerimeterConfig'' [(''enable'', t_boolean)]"

definition networkPerimeterConfig :: descriptor where
  "networkPerimeterConfig = t_interface ''networkPerimeterConfig'' [(''enable'', t_boolean)]"

definition dataProtectionConfig :: descriptor where
  "dataProtectionConfig =
     t_interface ''dataProtectionConfig''
       [(''enable'', t_boolean),
        (''identityPerimeter'', identityPerimeterConfig),
        (''resourcePerimeter'', resourcePerimeterConfig),
        (''networkPerimeter'', networkPerimeterConfig)]"

definition artifactTypeEnum :: descriptor where
  "artifactTypeEnum = t_enums ''ArtifactType'' [''REDSHIFT'', ''QUICKSIGHT'', ''ATHENA'']"

definition costAndUsageReportConfig :: descriptor where
  "costAndUsageReportConfig =
     t_interface ''costAndUsageReportConfig''
       [(''additionalSchemaElements'', t_optional (t_array t_nonEmptyString)),
        (''compression'', t_enums ''CompressionType'' [''ZIP'', ''GZIP'', ''Parquet'']),
        (''format'', t_enums ''FormatType'' [''textORcsv'', ''Parquet'']),
        (''reportName'', t_nonEmptyString),
        (''s3Prefix'', t_nonEmptyString),
        (''timeUnit'', t_enums ''TimeCoverageType'' [''HOURLY'', ''DAILY'', ''MONTHLY'']),
        (''additionalArtifacts'', t_optional (t_array artifactTypeEnum)),
        (''refreshClosedReports'', t_boolean),
        (''reportVersioning'',
           t_enums ''VersioningType'' [''CREATE_NEW_REPORT'', ''OVERWRITE_REPORT''])]"

definition notificationConfig :: descriptor where
  "notificationConfig =
     t_interface ''notificationConfig''
       [(''notificationType'', t_enums ''NotificationType'' [''ACTUAL'', ''FORECASTED'']),
        (''thresholdType'', t_enums ''ThresholdType'' [''PERCENTAGE'', ''ABSOLUTE_VALUE'']),
        (''comparisonOperator'',
           t_enums ''ComparisonType'' [''GREATER_THAN'', ''LESS_THAN'', ''EQUAL_TO'']),
        (''threshold'', t_optional t_number)]"

definition budgetsConfig :: descriptor where
  "budgetsConfig =
     t_interface ''budgetsConfig''
       [(''amount'', t_number),
        (''budgetName'', t_nonEmptyString),
        (''budgetType'',
           t_enums ''NotificationType''
             [''USAGE'', ''COST'', ''RI_UTILIZATION'', ''RI_COVERAGE'',
              ''SAVINGS_PLANS_UTILIZATION'', ''SAVINGS_PLANS_COVERAGE'']),
        (''timeUnit'', t_enums ''TimeUnitType'' [''DAILY'', ''MONTHLY'', ''QUARTERLY'', ''ANNUALLY'']),
        (''address'', t_optional t_nonEmptyString),
        (''includeUpfront'', t_optional t_boolean),
        (''includeTax'', t_optional t_boolean),
        (''includeSupport'', t_optional t_boolean),
        (''includeSubscription'', t_optional t_boolean),
        (''includeRecurring'', t_optional t_boolean),
        (''includeOtherSubscription'', t_optional t_boolean),
        (''includeCredit'', t_optional t_boolean),
        (''includeDiscount'', t_optional t_boolean),
        (''includeRefund'', t_optional t_boolean),
        (''useAmortized'', t_optional t_boolean),
        (''useBlended'', t_optional t_boolean),
        (''notifications'', t_optional (t_array notificationConfig)),
        (''subscriptionType'', t_enums ''SubscriptionType'' [''EMAIL'', ''SNS'']),
        (''unit'', t_optional t_nonEmptyString)]"

definition reportConfig :: descriptor where
  "reportConfig =
     t_interface ''reportConfig''
       [(''costAndUsageReport'', t_optional costAndUsageReportConfig),
        (''budgets'', t_optional budgetsConfig)]"

definition globalConfig :: descriptor where
  "globalConfig =
     t_interface ''globalConfig''
       [(''homeRegion'', t_nonEmptyString),
        (''enabledRegions'', t_array t_region),
        (''managementAccountAccessRole'', t_nonEmptyString),
        (''cloudwatchLogRetentionInDays'', t_number),
        (''controlTower'', controlTowerConfig),
        (''logging'', loggingConfig),
        (''dataProtection'', t_optional dataProtectionConfig),
        (''reports'', t_optional reportConfig)]"

subsection \<open>The collaborators\<close>

text \<open>
  The file imports fs, path, js-yaml and \<open>./common-types\<close>; none of them is part of it.
  The four functions it calls are parameters: each either returns or throws.
  \<open>fs_readFileSync\<close> is \<open>fs.readFileSync(_, 'utf8')\<close>, \<open>t_parse\<close> is \<open>t.parse\<close>.
\<close>

record collaborators =
  fs_readFileSync :: "string \<Rightarrow> thrown + string"
  path_join :: "string \<Rightarrow> string \<Rightarrow> string"
  yaml_load :: "string \<Rightarrow> thrown + generic"
  t_parse :: "descriptor \<Rightarrow> generic \<Rightarrow> thrown + GlobalConfig"

text \<open>\<open>${e}\<close>: an \<open>Error\<close> renders as its name, a colon and its message.\<close>

fun toString :: "thrown \<Rightarrow> string" where
  "toString (Error message) = ''Error: '' @ message"
| "toString (Foreign rendering) = rendering"

text \<open>
  \<open>GlobalConfig.load(dir)\<close>: nothing is caught, so whatever a step throws is what the
  caller gets.
\<close>

definition load :: "collaborators \<Rightarrow> string \<Rightarrow> thrown + GlobalConfig" where
  "load ext dir =
     (case fs_readFileSync ext (path_join ext dir FILENAME) of
        Inl e \<Rightarrow> Inl e
      | Inr buffer \<Rightarrow>
          (case yaml_load ext buffer of
             Inl e \<Rightarrow> Inl e
           | Inr tree \<Rightarrow>
               (case t_parse ext globalConfig tree of
                  Inl e \<Rightarrow> Inl e
                | Inr values \<Rightarrow>
                    new_GlobalConfig \<lparr>props_homeRegion = homeRegion values\<rparr> (Some values))))"

text \<open>
  The body of the \<open>try\<close> block of \<open>loadFromString\<close>. \<open>new GlobalConfig(values)\<close> passes
  the parsed values as \<open>props\<close> and passes no second argument.
\<close>

definition loadFromString_try :: "collaborators \<Rightarrow> string \<Rightarrow> thrown + GlobalConfig" where
  "loadFromString_try ext content =
     (case yaml_load ext content of
        Inl e \<Rightarrow> Inl e
      | Inr tree \<Rightarrow>
          (case t_parse ext globalConfig tree of
             Inl e \<Rightarrow> Inl e
           | Inr values \<Rightarrow> new_GlobalConfig \<lparr>props_homeRegion = homeRegion values\<rparr> None))"

text \<open>
  \<open>GlobalConfig.loadFromString(content)\<close>: the lines written with \<open>console.log\<close>, and
  the returned value (\<open>None\<close> is \<open>undefined\<close>).
\<close>

definition loadFromString :: "collaborators \<Rightarrow> string \<Rightarrow> string list \<times> GlobalConfig option" where
  "loadFromString ext content =
     (case loadFromString_try ext content of
        Inl e \<Rightarrow>
          ([''[global-config] Error parsing input, global config undefined'', toString e], None)
      | Inr config \<Rightarrow> ([], Some config))"

section \<open>Structural validation\<close>

text \<open>
  Modelled from the spec: the descriptor library \<open>./common-types\<close> (what \<open>t.boolean\<close>,
  \<open>t.nonEmptyString\<close>, \<open>t.region\<close>, \<open>t.enums\<close>, \<open>t.optional\<close>, \<open>t.array\<close> and
  \<open>t.interface\<close> accept) is not part of the file. Section 4.1 of the spec gives each
  descriptor one operation that returns the violations of a Generic Value: a scalar
  descriptor accepts the values of its kind, a non-empty string rejects the empty string,
  a region is a member of the supported-region set (taken as the parameter \<open>regions\<close>), an
  enum is a member of its allowed values, an optional accepts an absent or null value and
  delegates otherwise, an array needs a list and collects the violations of every
  element, an interface needs a mapping, ignores unknown keys, and reports a missing key of
  a descriptor that is not optional. A violation has the path of its field and a message.
\<close>

datatype violation = Violation "string list" string

fun kind_of :: "generic \<Rightarrow> string" where
  "kind_of GNull = ''null''"
| "kind_of (GBool _) = ''boolean''"
| "kind_of (GNumber _) = ''number''"
| "kind_of (GString _) = ''string''"
| "kind_of (GList _) = ''list''"
| "kind_of (GMapping _) = ''mapping''"

fun is_optional :: "descriptor \<Rightarrow> bool" where
  "is_optional (t_optional _) = True"
| "is_optional _ = False"

fun validate :: "string list \<Rightarrow> descriptor \<Rightarrow> string list \<Rightarrow> generic \<Rightarrow> violation list" where
  "validate regions t_boolean path v =
     (case v of
        GBool _ \<Rightarrow> []
      | _ \<Rightarrow> [Violation path (''expected boolean, got '' @ kind_of v)])"
| "validate regions t_number path v =
     (case v of
        GNumber _ \<Rightarrow> []
      | _ \<Rightarrow> [Violation path (''expected number, got '' @ kind_of v)])"
| "validate regions t_string path v =
     (case v of
        GString _ \<Rightarrow> []
      | _ \<Rightarrow> [Violation path (''expected string, got '' @ kind_of v)])"
| "validate regions t_nonEmptyString path v =
     (case v of
        GString s \<Rightarrow>
          if s = [] then [Violation path ''expected non-empty string, got empty string'']
          else []
      | _ \<Rightarrow> [Violation path (''expected non-empty string, got '' @ kind_of v)])"
| "validate regions t_region path v =
     (case v of
        GString s \<Rightarrow>
          if s \<in> set regions then [] else [Violation path (''expected region, got '' @ s)]
      | _ \<Rightarrow> [Violation path (''expected region, got '' @ kind_of v)])"
| "validate regions (t_enums name allowed) path v =
     (case v of
        GString s \<Rightarrow>
          if s \<in> set allowed then []
          else [Violation path (''expected '' @ name @ '', got '' @ s)]
      | _ \<Rightarrow> [Violation path (''expected '' @ name @ '', got '' @ kind_of v)])"
| "validate regions (t_optional inner) path v =
     (case v of
        GNull \<Rightarrow> []
      | _ \<Rightarrow> validate regions inner path v)"
| "validate regions (t_array inner) path v =
     (case v of
        GList xs \<Rightarrow>
          concat (map (\<lambda>(i, x). validate regions inner (path @ [string_of_nat i]) x)
                      (enumerate 0 xs))
      | _ \<Rightarrow> [Violation path (''expected list, got '' @ kind_of v)])"
| "validate regions (t_interface name members) path v =
     (case v of
        GMapping entries \<Rightarrow>
          concat (map (\<lambda>(key, member).
                         case map_of entries key of
                           None \<Rightarrow>
                             if is_optional member then []
                             else [Violation (path @ [key])
                                     (''missing field '' @ key @ '' of '' @ name)]
                         | Some x \<Rightarrow> validate regions member (path @ [key]) x)
                      members)
      | _ \<Rightarrow> [Violation path (''expected '' @ name @ '', got '' @ kind_of v)])"

subsection \<open>A configuration object as a Generic Value\<close>

text \<open>
  To validate an object of the model against a schema it is read as the tree it is at run
  time: an object is a mapping of its properties, and a property whose value is
  \<open>undefined\<close> is an absent key.
\<close>

definition optional_property :: "string \<Rightarrow> ('a \<Rightarrow> generic) \<Rightarrow> 'a option \<Rightarrow> (string \<times> generic) list" where
  "optional_property key tree_of x = (case x of None \<Rightarrow> [] | Some y \<Rightarrow> [(key, tree_of y)])"

definition generic_of_strings :: "string list \<Rightarrow> generic" where
  "generic_of_strings xs = GList (map GString xs)"

definition generic_of_ControlTowerConfig :: "ControlTowerConfig \<Rightarrow> generic" where
  "generic_of_ControlTowerConfig c = GMapping [(''enable'', GBool (controlTower_enable c))]"

definition generic_of_CloudtrailConfig :: "CloudtrailConfig \<Rightarrow> generic" where
  "generic_of_CloudtrailConfig c =
     GMapping [(''enable'', GBool (cloudtrail_enable c)),
               (''organizationTrail'', GBool (organizationTrail c))]"

definition generic_of_SessionManagerConfig :: "SessionManagerConfig \<Rightarrow> generic" where
  "generic_of_SessionManagerConfig c =
     GMapping ([(''sendToCloudWatchLogs'', GBool (sendToCloudWatchLogs c)),
                (''sendToS3'', GBool (sendToS3 c))]
               @ optional_property ''excludeRegions'' generic_of_strings (excludeRegions c)
               @ optional_property ''excludeAccounts'' generic_of_strings (excludeAccounts c))"

definition generic_of_LoggingConfig :: "LoggingConfig \<Rightarrow> generic" where
  "generic_of_LoggingConfig c =
     GMapping [(''account'', GString (account c)),
               (''cloudtrail'', generic_of_CloudtrailConfig (cloudtrail c)),
               (''sessionManager'', generic_of_SessionManagerConfig (sessionManager c))]"

definition generic_of_DataProtectionConfig :: "DataProtectionConfig \<Rightarrow> generic" where
  "generic_of_DataProtectionConfig c =
     GMapping [(''enable'', GBool (dataProtection_enable c)),
               (''identityPerimeter'',
                  GMapping [(''enable'', GBool (identityPerimeter_enable (identityPerimeter c)))]),
               (''resourcePerimeter'',
                  GMapping [(''enable'', GBool (resourcePerimeter_enable (resourcePerimeter c)))]),
               (''networkPerimeter'',
                  GMapping [(''enable'', GBool (networkPerimeter_enable (networkPerimeter c)))])]"

definition generic_of_CostAndUsageReportConfig :: "CostAndUsageReportConfig \<Rightarrow> generic" where
  "generic_of_CostAndUsageReportConfig c =
     GMapping (optional_property ''additionalSchemaElements'' generic_of_strings
                 (additionalSchemaElements c)
               @ [(''compression'', GString (compression c)),
                  (''format'', GString (format c)),
                  (''reportName'', GString (reportName c)),
                  (''s3Prefix'', GString (s3Prefix c)),
                  (''timeUnit'', GString (costAndUsageReport_timeUnit c))]
               @ optional_property ''additionalArtifacts'' generic_of_strings
                   (additionalArtifacts c)
               @ [(''refreshClosedReports'', GBool (refreshClosedReports c)),
                  (''reportVersioning'', GString (reportVersioning c))])"

definition generic_of_NotificationConfig :: "NotificationConfig \<Rightarrow> generic" where
  "generic_of_NotificationConfig c =
     GMapping ([(''notificationType'', GString (notificationType c)),
                (''thresholdType'', GString (thresholdType c)),
                (''comparisonOperator'', GString (comparisonOperator c))]
               @ optional_property ''threshold'' GNumber (threshold c))"

definition generic_of_BudgetReportConfig :: "BudgetReportConfig \<Rightarrow> generic" where
  "generic_of_BudgetReportConfig c =
     GMapping ([(''amount'', GNumber (amount c)),
                (''budgetName'', GString (budgetName c)),
                (''budgetType'', GString (budgetType c)),
                (''timeUnit'', GString (budgets_timeUnit c))]
               @ optional_property ''address'' GString (address c)
               @ optional_property ''includeUpfront'' GBool (includeUpfront c)
               @ optional_property ''includeTax'' GBool (includeTax c)
               @ optional_property ''includeSupport'' GBool (includeSupport c)
               @ optional_property ''includeSubscription'' GBool (includeSubscription c)
               @ optional_property ''includeRecurring'' GBool (includeRecurring c)
               @ optional_property ''includeOtherSubscription'' GBool (includeOtherSubscription c)
               @ optional_property ''includeCredit'' GBool (includeCredit c)
               @ optional_property ''includeDiscount'' GBool (includeDiscount c)
               @ optional_property ''includeRefund'' GBool (includeRefund c)
               @ optional_property ''useAmortized'' GBool (useAmortized c)
               @ optional_property ''useBlended'' GBool (useBlended c)
               @ optional_property ''notifications''
                   (\<lambda>ns. GList (map generic_of_NotificationConfig ns)) (notifications c)
               @ [(''subscriptionType'', GString (subscriptionType c))]
               @ optional_property ''unit'' GString (budgets_unit c))"

definition generic_of_ReportConfig :: "ReportConfig \<Rightarrow> generic" where
  "generic_of_ReportConfig c =
     GMapping (optional_property ''costAndUsageReport'' generic_of_CostAndUsageReportConfig
                 (costAndUsageReport c)
               @ optional_property ''budgets'' generic_of_BudgetReportConfig (budgets c))"

definition generic_of_GlobalConfig :: "GlobalConfig \<Rightarrow> generic" where
  "generic_of_GlobalConfig c =
     GMapping ([(''homeRegion'', GString (homeRegion c)),
                (''enabledRegions'', generic_of_strings (enabledRegions c)),
                (''managementAccountAccessRole'', GString (managementAccountAccessRole c)),
                (''cloudwatchLogRetentionInDays'', GNumber (cloudwatchLogRetentionInDays c)),
                (''controlTower'', generic_of_ControlTowerConfig (controlTower c)),
                (''logging'', generic_of_LoggingConfig (logging c))]
               @ optional_property ''dataProtection'' generic_of_DataProtectionConfig
                   (dataProtection c)
               @ optional_property ''reports'' generic_of_ReportConfig (reports c))"

section \<open>Sample inputs\<close>

text \<open>
  Parsed values as \<open>t.parse\<close> returns them for a document that gives \<open>homeRegion\<close>,
  \<open>enabledRegions\<close> and \<open>cloudwatchLogRetentionInDays\<close> and writes the other required
  sections with the values the classes default to.
\<close>

definition parsed_values :: "string \<Rightarrow> string list \<Rightarrow> real \<Rightarrow> GlobalConfig" where
  "parsed_values home regions days =
     \<lparr>homeRegion = home,
      enabledRegions = regions,
      managementAccountAccessRole = ''AWSControlTowerExecution'',
      cloudwatchLogRetentionInDays = days,
      controlTower = new_ControlTowerConfig,
      logging = new_LoggingConfig,
      dataProtection = None,
      reports = None\<rparr>"

text \<open>
  Collaborators for a repository that holds one document: the file is read as \<open>text\<close>,
  \<open>text\<close> deserializes to \<open>tree\<close> and \<open>tree\<close> parses to \<open>values\<close>; any other content
  is not YAML, any other tree is not a global configuration.
\<close>

definition one_document :: "string \<Rightarrow> generic \<Rightarrow> GlobalConfig \<Rightarrow> collaborators" where
  "one_document text tree values =
     \<lparr>fs_readFileSync = (\<lambda>path. Inr text),
      path_join = (\<lambda>dir name. dir @ ''/'' @ name),
      yaml_load = (\<lambda>content. if content = text then Inr tree else Inl (Foreign ''YAMLException'')),
      t_parse = (\<lambda>schema g. if g = tree then Inr values else Inl (Foreign ''Error''))\<rparr>"

text \<open>Collaborators for a directory without the file.\<close>

definition no_document :: collaborators where
  "no_document =
     \<lparr>fs_readFileSync = (\<lambda>path. Inl (Foreign ''Error: ENOENT'')),
      path_join = (\<lambda>dir name. dir @ ''/'' @ name),
      yaml_load = (\<lambda>content. Inl (Foreign ''YAMLException'')),
      t_parse = (\<lambda>schema g. Inl (Foreign ''Error''))\<rparr>"

section \<open>Facts about the constructor\<close>

lemma new_GlobalConfig_fails_iff:
  "(\<exists>e. new_GlobalConfig props values = Inl e) \<longleftrightarrow> validation_errors values \<noteq> []"
  by (simp add: new_GlobalConfig_def Let_def)

lemma new_GlobalConfig_throws:
  "validation_errors values \<noteq> [] \<Longrightarrow>
   new_GlobalConfig props values = Inl (Error (issues_message (validation_errors values)))"
  by (simp add: new_GlobalConfig_def Let_def)

lemma new_GlobalConfig_succeeds:
  "validation_errors values = [] \<Longrightarrow> \<exists>c. new_GlobalConfig props values = Inr c"
  by (simp add: new_GlobalConfig_def Let_def)

lemma issues_message_single:
  "issues_message [m] = ''global-config.yaml has 1 issues: '' @ m"
  by (simp add: issues_message_def FILENAME_def digit_char_def)

lemma new_GlobalConfig_defaults:
  "new_GlobalConfig \<lparr>props_homeRegion = home\<rparr> None =
     Inr \<lparr>homeRegion = home, enabledRegions = [home],
          managementAccountAccessRole = ''AWSControlTowerExecution'',
          cloudwatchLogRetentionInDays = 365,
          controlTower = new_ControlTowerConfig,
          logging = new_LoggingConfig,
          dataProtection = None, reports = None\<rparr>"
  by (simp add: new_GlobalConfig_def validation_errors_def assigned_def)

lemma new_GlobalConfig_from_props:
  "new_GlobalConfig props values = Inr c \<Longrightarrow>
   enabledRegions c = [props_homeRegion props] \<and> homeRegion c = props_homeRegion props"
  by (auto simp add: new_GlobalConfig_def Let_def split: if_splits)

lemma sublist_join:
  "x \<in> set xs \<Longrightarrow> sublist x (join sep xs)"
proof (induction sep xs rule: join.induct)
  case (1 sep)
  then show ?case by simp
next
  case (2 sep y)
  then show ?case by simp
next
  case (3 sep y z zs)
  show ?case
  proof (cases "x = y")
    case True
    then show ?thesis by simp
  next
    case False
    with 3 have "sublist x (join sep (z # zs))" by simp
    then obtain ps ss where "join sep (z # zs) = ps @ x @ ss"
      by (auto simp add: sublist_def)
    then have "join sep (y # z # zs) = (y @ sep @ ps) @ x @ ss" by simp
    then show ?thesis unfolding sublist_def by blast
  qed
qed

section \<open>Facts about the loaders\<close>

lemma load_Inr:
  "load ext dir = Inr c \<Longrightarrow>
   \<exists>buffer tree values.
     fs_readFileSync ext (path_join ext dir FILENAME) = Inr buffer
     \<and> yaml_load ext buffer = Inr tree
     \<and> t_parse ext globalConfig tree = Inr values
     \<and> new_GlobalConfig \<lparr>props_homeRegion = homeRegion values\<rparr> (Some values) = Inr c"
  by (auto simp add: load_def split: sum.splits)

lemma loadFromString_Some:
  "snd (loadFromString ext content) = Some c \<Longrightarrow>
   \<exists>tree values.
     yaml_load ext content = Inr tree
     \<and> t_parse ext globalConfig tree = Inr values
     \<and> new_GlobalConfig \<lparr>props_homeRegion = homeRegion values\<rparr> None = Inr c"
  by (auto simp add: loadFromString_def loadFromString_try_def split: sum.splits)

section \<open>Facts about the default objects and the schema\<close>

lemma validate_default_logging:
  "validate regions loggingConfig path (generic_of_LoggingConfig new_LoggingConfig) = []"
  by (simp add: loggingConfig_def cloudtrailConfig_def sessionManagerConfig_def
      generic_of_LoggingConfig_def generic_of_CloudtrailConfig_def
      generic_of_SessionManagerConfig_def optional_property_def generic_of_strings_def
      new_LoggingConfig_def new_CloudtrailConfig_def new_SessionManagerConfig_def)

lemma validate_default_controlTower:
  "validate regions controlTowerConfig path
     (generic_of_ControlTowerConfig new_ControlTowerConfig) = []"
  by (simp add: controlTowerConfig_def generic_of_ControlTowerConfig_def
      new_ControlTowerConfig_def)

section \<open>The region rule of the constructor\<close>

text \<open>
  C1. When the constructor is given parsed values whose \<open>homeRegion\<close> is us-gov-west-1 or
  us-gov-east-1, it throws if and only if \<open>homeRegion\<close> is not us-gov-west-1. With
  us-gov-west-1 it returns an object whatever \<open>enabledRegions\<close> holds; with us-gov-east-1
  it throws the error whose one issue is that us-gov-west-1 must be the home region.
\<close>

theorem govcloud_home_region:
  assumes "homeRegion v = ''us-gov-west-1'' \<or> homeRegion v = ''us-gov-east-1''"
  shows "((\<exists>e. new_GlobalConfig props (Some v) = Inl e) \<longleftrightarrow> homeRegion v \<noteq> ''us-gov-west-1'')
       \<and> (homeRegion v = ''us-gov-west-1'' \<longrightarrow> (\<exists>c. new_GlobalConfig props (Some v) = Inr c))
       \<and> (homeRegion v = ''us-gov-east-1'' \<longrightarrow>
            new_GlobalConfig props (Some v) =
              Inl (Error ''global-config.yaml has 1 issues: The region us-gov-west-1 must be the home region.''))"
proof -
  have errs: "validation_errors (Some v) =
      (if homeRegion v \<noteq> ''us-gov-west-1''
       then [''The region us-gov-west-1 must be the home region.''] else [])"
    using assms by (auto simp add: validation_errors_def)
  show ?thesis
  proof (cases "homeRegion v = ''us-gov-west-1''")
    case True
    with errs have none: "validation_errors (Some v) = []" by simp
    then have "\<exists>c. new_GlobalConfig props (Some v) = Inr c"
      by (rule new_GlobalConfig_succeeds)
    moreover from none have "\<not> (\<exists>e. new_GlobalConfig props (Some v) = Inl e)"
      by (simp add: new_GlobalConfig_fails_iff)
    ultimately show ?thesis using True by simp
  next
    case False
    with assms have east: "homeRegion v = ''us-gov-east-1''" by simp
    from False errs have one:
      "validation_errors (Some v) = [''The region us-gov-west-1 must be the home region.'']"
      by simp
    have "new_GlobalConfig props (Some v) =
        Inl (Error ''global-config.yaml has 1 issues: The region us-gov-west-1 must be the home region.'')"
      using new_GlobalConfig_throws [of "Some v" props] one issues_message_single by simp
    with False east show ?thesis by simp
  qed
qed

theorem govcloud_home_region_witness:
  "new_GlobalConfig \<lparr>props_homeRegion = ''us-gov-east-1''\<rparr>
      (Some (parsed_values ''us-gov-east-1'' [''us-gov-east-1'', ''us-gov-west-1''] 90)) =
     Inl (Error ''global-config.yaml has 1 issues: The region us-gov-west-1 must be the home region.'')
   \<and> (\<exists>c. new_GlobalConfig \<lparr>props_homeRegion = ''us-gov-west-1''\<rparr>
      (Some (parsed_values ''us-gov-west-1'' [] 90)) = Inr c)"
  using govcloud_home_region
          [of "parsed_values ''us-gov-east-1'' [''us-gov-east-1'', ''us-gov-west-1''] 90"
              "\<lparr>props_homeRegion = ''us-gov-east-1''\<rparr>"]
        govcloud_home_region
          [of "parsed_values ''us-gov-west-1'' [] 90" "\<lparr>props_homeRegion = ''us-gov-west-1''\<rparr>"]
  by (simp add: parsed_values_def)

text \<open>
  C2. When the constructor is given parsed values whose \<open>homeRegion\<close> is neither
  us-gov-west-1 nor us-gov-east-1, it throws if and only if \<open>homeRegion\<close> is not us-east-1
  and us-east-1 is not among \<open>enabledRegions\<close>, and what it throws then is the error whose
  one issue is that us-east-1 must be included in the list of enabled regions. With any
  list of enabled regions that contains us-east-1, all else equal, it returns an object.
\<close>

theorem commercial_needs_us_east_1:
  assumes "homeRegion v \<noteq> ''us-gov-west-1''" and "homeRegion v \<noteq> ''us-gov-east-1''"
  shows "((\<exists>e. new_GlobalConfig props (Some v) = Inl e) \<longleftrightarrow>
            (homeRegion v \<noteq> ''us-east-1'' \<and> ''us-east-1'' \<notin> set (enabledRegions v)))
       \<and> (homeRegion v \<noteq> ''us-east-1'' \<and> ''us-east-1'' \<notin> set (enabledRegions v) \<longrightarrow>
            new_GlobalConfig props (Some v) =
              Inl (Error ''global-config.yaml has 1 issues: The region us-east-1 must be included in the list of enabled regions''))
       \<and> (\<forall>regions. ''us-east-1'' \<in> set regions \<longrightarrow>
            (\<exists>c. new_GlobalConfig props (Some (v\<lparr>enabledRegions := regions\<rparr>)) = Inr c))"
proof -
  let ?missing = "homeRegion v \<noteq> ''us-east-1'' \<and> ''us-east-1'' \<notin> set (enabledRegions v)"
  have errs: "validation_errors (Some v) =
      (if ?missing
       then [''The region us-east-1 must be included in the list of enabled regions''] else [])"
    using assms by (simp add: validation_errors_def)
  have iff: "(\<exists>e. new_GlobalConfig props (Some v) = Inl e) \<longleftrightarrow> ?missing"
    using errs by (simp add: new_GlobalConfig_fails_iff)
  have msg: "new_GlobalConfig props (Some v) =
      Inl (Error ''global-config.yaml has 1 issues: The region us-east-1 must be included in the list of enabled regions'')"
    if "?missing"
    using that errs new_GlobalConfig_throws [of "Some v" props] issues_message_single by simp
  have added: "\<exists>c. new_GlobalConfig props (Some (v\<lparr>enabledRegions := regions\<rparr>)) = Inr c"
    if "''us-east-1'' \<in> set regions" for regions
  proof (rule new_GlobalConfig_succeeds)
    show "validation_errors (Some (v\<lparr>enabledRegions := regions\<rparr>)) = []"
      using assms that by (simp add: validation_errors_def)
  qed
  from iff msg added show ?thesis by blast
qed

theorem commercial_needs_us_east_1_witness:
  "new_GlobalConfig \<lparr>props_homeRegion = ''eu-west-1''\<rparr>
      (Some (parsed_values ''eu-west-1'' [''eu-west-1''] 90)) =
     Inl (Error ''global-config.yaml has 1 issues: The region us-east-1 must be included in the list of enabled regions'')
   \<and> (\<exists>c. new_GlobalConfig \<lparr>props_homeRegion = ''eu-west-1''\<rparr>
      (Some (parsed_values ''eu-west-1'' [''eu-west-1'', ''us-east-1''] 90)) = Inr c)"
proof -
  let ?v = "parsed_values ''eu-west-1'' [''eu-west-1''] 90"
  have h1: "homeRegion ?v \<noteq> ''us-gov-west-1''" and h2: "homeRegion ?v \<noteq> ''us-gov-east-1''"
    by (simp_all add: parsed_values_def)
  have upd: "?v\<lparr>enabledRegions := [''eu-west-1'', ''us-east-1'']\<rparr> =
      parsed_values ''eu-west-1'' [''eu-west-1'', ''us-east-1''] 90"
    by (simp add: parsed_values_def)
  from commercial_needs_us_east_1 [OF h1 h2, of "\<lparr>props_homeRegion = ''eu-west-1''\<rparr>"]
  have "new_GlobalConfig \<lparr>props_homeRegion = ''eu-west-1''\<rparr> (Some ?v) =
      Inl (Error ''global-config.yaml has 1 issues: The region us-east-1 must be included in the list of enabled regions'')"
    and "\<exists>c. new_GlobalConfig \<lparr>props_homeRegion = ''eu-west-1''\<rparr>
      (Some (?v\<lparr>enabledRegions := [''eu-west-1'', ''us-east-1'']\<rparr>)) = Inr c"
    by (simp_all add: parsed_values_def)
  then show ?thesis by (simp only: upd)
qed

text \<open>
  C3. The claim is that \<open>loadFromString\<close> returns nothing for a valid document with
  \<open>homeRegion\<close> eu-west-1, \<open>enabledRegions\<close> [eu-west-1] and
  \<open>cloudwatchLogRetentionInDays\<close> 90. The code at that document: \<open>loadFromString\<close>
  logs nothing and returns an object, with the default retention of 365 days, while
  \<open>load\<close> on the same document throws the error that asks for us-east-1.
\<close>

theorem loadFromString_skips_the_region_rule:
  "loadFromString
     (one_document ''homeRegion: eu-west-1''
        (generic_of_GlobalConfig (parsed_values ''eu-west-1'' [''eu-west-1''] 90))
        (parsed_values ''eu-west-1'' [''eu-west-1''] 90))
     ''homeRegion: eu-west-1'' =
     ([], Some (parsed_values ''eu-west-1'' [''eu-west-1''] 365))
   \<and> load
       (one_document ''homeRegion: eu-west-1''
          (generic_of_GlobalConfig (parsed_values ''eu-west-1'' [''eu-west-1''] 90))
          (parsed_values ''eu-west-1'' [''eu-west-1''] 90))
       ''config'' =
     Inl (Error ''global-config.yaml has 1 issues: The region us-east-1 must be included in the list of enabled regions'')"
proof -
  let ?parsed = "parsed_values ''eu-west-1'' [''eu-west-1''] 90"
  let ?ext = "one_document ''homeRegion: eu-west-1'' (generic_of_GlobalConfig ?parsed) ?parsed"
  have home: "homeRegion ?parsed = ''eu-west-1''"
    by (simp add: parsed_values_def)
  have without: "new_GlobalConfig \<lparr>props_homeRegion = ''eu-west-1''\<rparr> None =
      Inr (parsed_values ''eu-west-1'' [''eu-west-1''] 365)"
    by (simp add: new_GlobalConfig_defaults parsed_values_def)
  have errs: "validation_errors (Some ?parsed) =
      [''The region us-east-1 must be included in the list of enabled regions'']"
    by (simp add: validation_errors_def parsed_values_def)
  have supplied: "new_GlobalConfig \<lparr>props_homeRegion = ''eu-west-1''\<rparr> (Some ?parsed) =
      Inl (Error ''global-config.yaml has 1 issues: The region us-east-1 must be included in the list of enabled regions'')"
    using new_GlobalConfig_throws [of "Some ?parsed" "\<lparr>props_homeRegion = ''eu-west-1''\<rparr>"]
    by (simp add: errs issues_message_single)
  have "loadFromString_try ?ext ''homeRegion: eu-west-1'' =
      Inr (parsed_values ''eu-west-1'' [''eu-west-1''] 365)"
    by (simp add: loadFromString_try_def one_document_def home without)
  then have string_based: "loadFromString ?ext ''homeRegion: eu-west-1'' =
      ([], Some (parsed_values ''eu-west-1'' [''eu-west-1''] 365))"
    by (simp add: loadFromString_def)
  have file_based: "load ?ext ''config'' =
      Inl (Error ''global-config.yaml has 1 issues: The region us-east-1 must be included in the list of enabled regions'')"
    by (simp add: load_def one_document_def home supplied)
  from string_based file_based show ?thesis by (rule conjI)
qed

section \<open>What the constructed object holds\<close>

text \<open>
  C4, as stated, fails: with \<open>props.homeRegion\<close> us-west-2 and parsed values whose
  \<open>homeRegion\<close> is us-east-1 and whose \<open>enabledRegions\<close> are [us-east-1, us-west-2],
  construction succeeds and neither field of the parsed values is in the object.
\<close>

theorem overlay_counterexample:
  "new_GlobalConfig \<lparr>props_homeRegion = ''us-west-2''\<rparr>
      (Some (parsed_values ''us-east-1'' [''us-east-1'', ''us-west-2''] 90)) =
     Inr (parsed_values ''us-west-2'' [''us-west-2''] 90)
   \<and> homeRegion (parsed_values ''us-east-1'' [''us-east-1'', ''us-west-2''] 90) = ''us-east-1''
   \<and> enabledRegions (parsed_values ''us-east-1'' [''us-east-1'', ''us-west-2''] 90) =
        [''us-east-1'', ''us-west-2'']
   \<and> homeRegion (parsed_values ''us-west-2'' [''us-west-2''] 90) \<noteq> ''us-east-1''
   \<and> enabledRegions (parsed_values ''us-west-2'' [''us-west-2''] 90) \<noteq>
        [''us-east-1'', ''us-west-2'']"
  by (simp add: new_GlobalConfig_def validation_errors_def assigned_def parsed_values_def)

text \<open>
  C4, amended. When construction with parsed values succeeds, every field of the parsed
  values other than \<open>homeRegion\<close> and \<open>enabledRegions\<close> is the field of the object (a
  nested object is taken as a whole, nothing of the nested default remains), the object's
  \<open>homeRegion\<close> is \<open>props.homeRegion\<close>, and an optional section the parsed values leave
  out keeps the default that construction without parsed values gives it.
\<close>

theorem overlay_of_parsed_values:
  assumes "new_GlobalConfig props (Some v) = Inr c"
  shows "managementAccountAccessRole c = managementAccountAccessRole v
       \<and> cloudwatchLogRetentionInDays c = cloudwatchLogRetentionInDays v
       \<and> controlTower c = controlTower v
       \<and> logging c = logging v
       \<and> dataProtection c = dataProtection v
       \<and> reports c = reports v
       \<and> homeRegion c = props_homeRegion props
       \<and> (\<forall>d. new_GlobalConfig props None = Inr d \<longrightarrow>
            (dataProtection v = None \<longrightarrow> dataProtection c = dataProtection d)
          \<and> (reports v = None \<longrightarrow> reports c = reports d))"
proof -
  from assms have c: "c =
      \<lparr>homeRegion = props_homeRegion props, enabledRegions = [props_homeRegion props],
       managementAccountAccessRole = managementAccountAccessRole v,
       cloudwatchLogRetentionInDays = cloudwatchLogRetentionInDays v,
       controlTower = controlTower v, logging = logging v,
       dataProtection = dataProtection v, reports = reports v\<rparr>"
    by (simp add: new_GlobalConfig_def Let_def assigned_def split: if_splits)
  have d: "dataProtection d = None \<and> reports d = None"
    if "new_GlobalConfig props None = Inr d" for d
    using that by (auto simp add: new_GlobalConfig_def Let_def assigned_def split: if_splits)
  from c d show ?thesis by simp
qed

theorem overlay_of_parsed_values_witness:
  "new_GlobalConfig \<lparr>props_homeRegion = ''us-west-2''\<rparr>
      (Some (parsed_values ''us-east-1'' [''us-east-1'', ''us-west-2''] 90)) =
     Inr (parsed_values ''us-west-2'' [''us-west-2''] 90)
   \<and> logging (parsed_values ''us-west-2'' [''us-west-2''] 90) =
       logging (parsed_values ''us-east-1'' [''us-east-1'', ''us-west-2''] 90)
   \<and> cloudwatchLogRetentionInDays (parsed_values ''us-west-2'' [''us-west-2''] 90) =
       cloudwatchLogRetentionInDays (parsed_values ''us-east-1'' [''us-east-1'', ''us-west-2''] 90)
   \<and> homeRegion (parsed_values ''us-west-2'' [''us-west-2''] 90) = ''us-west-2''"
proof -
  have ok: "new_GlobalConfig \<lparr>props_homeRegion = ''us-west-2''\<rparr>
      (Some (parsed_values ''us-east-1'' [''us-east-1'', ''us-west-2''] 90)) =
     Inr (parsed_values ''us-west-2'' [''us-west-2''] 90)"
    by (simp add: new_GlobalConfig_def validation_errors_def assigned_def parsed_values_def)
  from ok overlay_of_parsed_values [OF ok] show ?thesis
    by simp
qed

text \<open>
  C5. Whenever a GlobalConfig is constructed, by the constructor, by \<open>load\<close> or by
  \<open>loadFromString\<close>, its \<open>enabledRegions\<close> is the one-element list of the
  \<open>homeRegion\<close> the constructor was given as \<open>props\<close> (for the loaders, the
  \<open>homeRegion\<close> of the parsed document); the list of the parsed values is not in the
  object.
\<close>

theorem enabledRegions_is_home_region_alone:
  "(new_GlobalConfig props values = Inr c \<longrightarrow> enabledRegions c = [props_homeRegion props])
   \<and> (load ext dir = Inr c \<longrightarrow>
        (\<exists>buffer tree parsed.
           fs_readFileSync ext (path_join ext dir FILENAME) = Inr buffer
           \<and> yaml_load ext buffer = Inr tree
           \<and> t_parse ext globalConfig tree = Inr parsed
           \<and> enabledRegions c = [homeRegion parsed]))
   \<and> (snd (loadFromString ext content) = Some c \<longrightarrow>
        (\<exists>tree parsed.
           yaml_load ext content = Inr tree
           \<and> t_parse ext globalConfig tree = Inr parsed
           \<and> enabledRegions c = [homeRegion parsed]))"
proof (intro conjI impI)
  assume "new_GlobalConfig props values = Inr c"
  then show "enabledRegions c = [props_homeRegion props]"
    by (simp add: new_GlobalConfig_from_props)
next
  assume "load ext dir = Inr c"
  then obtain buffer tree parsed where
    stages: "fs_readFileSync ext (path_join ext dir FILENAME) = Inr buffer"
      "yaml_load ext buffer = Inr tree" "t_parse ext globalConfig tree = Inr parsed"
    and made: "new_GlobalConfig \<lparr>props_homeRegion = homeRegion parsed\<rparr> (Some parsed) = Inr c"
    using load_Inr by blast
  from made have "enabledRegions c = [homeRegion parsed]"
    using new_GlobalConfig_from_props by fastforce
  with stages show "\<exists>buffer tree parsed.
           fs_readFileSync ext (path_join ext dir FILENAME) = Inr buffer
           \<and> yaml_load ext buffer = Inr tree
           \<and> t_parse ext globalConfig tree = Inr parsed
           \<and> enabledRegions c = [homeRegion parsed]" by blast
next
  assume "snd (loadFromString ext content) = Some c"
  then obtain tree parsed where
    stages: "yaml_load ext content = Inr tree" "t_parse ext globalConfig tree = Inr parsed"
    and made: "new_GlobalConfig \<lparr>props_homeRegion = homeRegion parsed\<rparr> None = Inr c"
    using loadFromString_Some by blast
  from made have "enabledRegions c = [homeRegion parsed]"
    using new_GlobalConfig_from_props by fastforce
  with stages show "\<exists>tree parsed.
           yaml_load ext content = Inr tree
           \<and> t_parse ext globalConfig tree = Inr parsed
           \<and> enabledRegions c = [homeRegion parsed]" by blast
qed

theorem enabledRegions_is_home_region_alone_witness:
  "new_GlobalConfig \<lparr>props_homeRegion = ''us-east-1''\<rparr>
      (Some (parsed_values ''us-east-1'' [''us-east-1'', ''us-west-2''] 90)) =
     Inr (parsed_values ''us-east-1'' [''us-east-1''] 90)
   \<and> load (one_document ''homeRegion: us-east-1''
             (generic_of_GlobalConfig (parsed_values ''us-east-1'' [''us-east-1'', ''us-west-2''] 90))
             (parsed_values ''us-east-1'' [''us-east-1'', ''us-west-2''] 90)) ''config'' =
     Inr (parsed_values ''us-east-1'' [''us-east-1''] 90)
   \<and> enabledRegions (parsed_values ''us-east-1'' [''us-east-1''] 90) = [''us-east-1'']"
proof -
  let ?given = "parsed_values ''us-east-1'' [''us-east-1'', ''us-west-2''] 90"
  let ?ext = "one_document ''homeRegion: us-east-1'' (generic_of_GlobalConfig ?given) ?given"
  let ?c = "parsed_values ''us-east-1'' [''us-east-1''] 90"
  have home: "homeRegion ?given = ''us-east-1''"
    by (simp add: parsed_values_def)
  have made: "new_GlobalConfig \<lparr>props_homeRegion = ''us-east-1''\<rparr> (Some ?given) = Inr ?c"
    by (simp add: new_GlobalConfig_def validation_errors_def assigned_def parsed_values_def)
  have loaded: "load ?ext ''config'' = Inr ?c"
    by (simp add: load_def one_document_def home made)
  from enabledRegions_is_home_region_alone
         [of "\<lparr>props_homeRegion = ''us-east-1''\<rparr>" "Some ?given" ?c ?ext "''config''"
             "''homeRegion: us-east-1''"]
    made loaded
  show ?thesis by simp
qed

text \<open>
  C8. Constructing a GlobalConfig from the \<open>homeRegion\<close> parameter alone, with no parsed
  values, succeeds and gives the documented defaults: managementAccountAccessRole is
  AWSControlTowerExecution, cloudwatchLogRetentionInDays is 365, controlTower.enable is
  true, logging.account is LogArchive, both cloudtrail flags and both sessionManager flags
  are false, and dataProtection and reports are absent.
\<close>

theorem default_only_construction:
  "\<exists>c. new_GlobalConfig props None = Inr c
     \<and> homeRegion c = props_homeRegion props
     \<and> managementAccountAccessRole c = ''AWSControlTowerExecution''
     \<and> cloudwatchLogRetentionInDays c = 365
     \<and> controlTower_enable (controlTower c) = True
     \<and> account (logging c) = ''LogArchive''
     \<and> cloudtrail_enable (cloudtrail (logging c)) = False
     \<and> organizationTrail (cloudtrail (logging c)) = False
     \<and> sendToCloudWatchLogs (sessionManager (logging c)) = False
     \<and> sendToS3 (sessionManager (logging c)) = False
     \<and> dataProtection c = None
     \<and> reports c = None"
  by (simp add: new_GlobalConfig_def validation_errors_def assigned_def
      new_ControlTowerConfig_def new_LoggingConfig_def new_CloudtrailConfig_def
      new_SessionManagerConfig_def)

theorem default_only_construction_witness:
  "\<exists>c. new_GlobalConfig \<lparr>props_homeRegion = ''us-east-1''\<rparr> None = Inr c
     \<and> homeRegion c = ''us-east-1''
     \<and> managementAccountAccessRole c = ''AWSControlTowerExecution''
     \<and> cloudwatchLogRetentionInDays c = 365
     \<and> controlTower_enable (controlTower c) = True
     \<and> account (logging c) = ''LogArchive''
     \<and> dataProtection c = None
     \<and> reports c = None"
  using default_only_construction [of "\<lparr>props_homeRegion = ''us-east-1''\<rparr>"]
  by auto

section \<open>The error of the constructor\<close>

text \<open>
  C9. Whenever the constructor's validation finds one or more violated rules, the
  constructor throws one error and returns no object. The message of the error starts
  with the file name global-config.yaml, contains the number of issues, and contains every
  violation message.
\<close>

theorem aggregated_error:
  assumes "validation_errors values \<noteq> []"
  shows "\<exists>message. new_GlobalConfig props values = Inl (Error message)
       \<and> message = FILENAME @ '' has '' @ string_of_nat (length (validation_errors values))
                     @ '' issues: '' @ join '' '' (validation_errors values)
       \<and> prefix ''global-config.yaml'' message
       \<and> sublist (string_of_nat (length (validation_errors values))) message
       \<and> (\<forall>violation \<in> set (validation_errors values). sublist violation message)"
proof -
  let ?errors = "validation_errors values"
  let ?message = "issues_message ?errors"
  have thrown: "new_GlobalConfig props values = Inl (Error ?message)"
    using assms by (rule new_GlobalConfig_throws)
  have name: "prefix ''global-config.yaml'' ?message"
    unfolding issues_message_def FILENAME_def by (rule prefixI) simp
  have count: "sublist (string_of_nat (length ?errors)) ?message"
    unfolding issues_message_def sublist_def
    by (rule exI [of _ "FILENAME @ '' has ''"], rule exI [of _ "'' issues: '' @ join '' '' ?errors"])
       simp
  have each: "sublist violation ?message" if "violation \<in> set ?errors" for violation
  proof -
    from that have "sublist violation (join '' '' ?errors)" by (rule sublist_join)
    then obtain ps ss where "join '' '' ?errors = ps @ violation @ ss"
      by (auto simp add: sublist_def)
    then have "?message =
        (FILENAME @ '' has '' @ string_of_nat (length ?errors) @ '' issues: '' @ ps)
          @ violation @ ss"
      by (simp add: issues_message_def)
    then show ?thesis unfolding sublist_def by blast
  qed
  have shape: "?message = FILENAME @ '' has '' @ string_of_nat (length ?errors)
                     @ '' issues: '' @ join '' '' ?errors"
    by (simp only: issues_message_def)
  show ?thesis
  proof (intro exI [of _ ?message] conjI ballI)
    show "new_GlobalConfig props values = Inl (Error ?message)" by (rule thrown)
    show "?message = FILENAME @ '' has '' @ string_of_nat (length ?errors)
                     @ '' issues: '' @ join '' '' ?errors" by (rule shape)
    show "prefix ''global-config.yaml'' ?message" by (rule name)
    show "sublist (string_of_nat (length ?errors)) ?message" by (rule count)
    show "sublist violation ?message" if "violation \<in> set ?errors" for violation
      using that by (rule each)
  qed
qed

theorem aggregated_error_witness:
  "validation_errors (Some (parsed_values ''us-gov-east-1'' [''us-gov-east-1''] 30)) \<noteq> []
   \<and> new_GlobalConfig \<lparr>props_homeRegion = ''us-gov-east-1''\<rparr>
        (Some (parsed_values ''us-gov-east-1'' [''us-gov-east-1''] 30)) =
      Inl (Error ''global-config.yaml has 1 issues: The region us-gov-west-1 must be the home region.'')"
proof -
  have errs: "validation_errors (Some (parsed_values ''us-gov-east-1'' [''us-gov-east-1''] 30)) =
      [''The region us-gov-west-1 must be the home region.'']"
    by (simp add: validation_errors_def parsed_values_def)
  then have nonempty:
    "validation_errors (Some (parsed_values ''us-gov-east-1'' [''us-gov-east-1''] 30)) \<noteq> []"
    by simp
  from aggregated_error [OF nonempty, of "\<lparr>props_homeRegion = ''us-gov-east-1''\<rparr>"] nonempty
  show ?thesis
    by (simp add: errs FILENAME_def digit_char_def)
qed

section \<open>The two loaders\<close>

text \<open>
  C6. For every content that deserializes and parses, \<open>loadFromString\<close> logs nothing
  and returns the object that construction from the parsed \<open>homeRegion\<close> alone gives:
  every field other than \<open>homeRegion\<close> and \<open>enabledRegions\<close> is the default, whatever
  the document said, and no semantic violation is raised on this path.
\<close>

theorem loadFromString_gives_defaults:
  assumes "yaml_load ext content = Inr tree"
    and "t_parse ext globalConfig tree = Inr parsed"
  shows "loadFromString ext content =
           ([], Some \<lparr>homeRegion = homeRegion parsed,
                      enabledRegions = [homeRegion parsed],
                      managementAccountAccessRole = ''AWSControlTowerExecution'',
                      cloudwatchLogRetentionInDays = 365,
                      controlTower = new_ControlTowerConfig,
                      logging = new_LoggingConfig,
                      dataProtection = None,
                      reports = None\<rparr>)
       \<and> new_GlobalConfig \<lparr>props_homeRegion = homeRegion parsed\<rparr> None =
           Inr \<lparr>homeRegion = homeRegion parsed,
                enabledRegions = [homeRegion parsed],
                managementAccountAccessRole = ''AWSControlTowerExecution'',
                cloudwatchLogRetentionInDays = 365,
                controlTower = new_ControlTowerConfig,
                logging = new_LoggingConfig,
                dataProtection = None,
                reports = None\<rparr>"
proof -
  have made: "new_GlobalConfig \<lparr>props_homeRegion = homeRegion parsed\<rparr> None =
           Inr \<lparr>homeRegion = homeRegion parsed,
                enabledRegions = [homeRegion parsed],
                managementAccountAccessRole = ''AWSControlTowerExecution'',
                cloudwatchLogRetentionInDays = 365,
                controlTower = new_ControlTowerConfig,
                logging = new_LoggingConfig,
                dataProtection = None,
                reports = None\<rparr>"
    by (rule new_GlobalConfig_defaults)
  have "loadFromString_try ext content =
      new_GlobalConfig \<lparr>props_homeRegion = homeRegion parsed\<rparr> None"
    using assms by (simp add: loadFromString_try_def)
  with made show ?thesis by (simp add: loadFromString_def)
qed

theorem loadFromString_gives_defaults_witness:
  "loadFromString
     (one_document ''homeRegion: ap-south-1''
        (generic_of_GlobalConfig (parsed_values ''ap-south-1'' [''ap-south-1'', ''us-east-1''] 90))
        (parsed_values ''ap-south-1'' [''ap-south-1'', ''us-east-1''] 90))
     ''homeRegion: ap-south-1'' =
   ([], Some (parsed_values ''ap-south-1'' [''ap-south-1''] 365))"
proof -
  let ?parsed = "parsed_values ''ap-south-1'' [''ap-south-1'', ''us-east-1''] 90"
  let ?tree = "generic_of_GlobalConfig ?parsed"
  let ?ext = "one_document ''homeRegion: ap-south-1'' ?tree ?parsed"
  have yaml: "yaml_load ?ext ''homeRegion: ap-south-1'' = Inr ?tree"
    by (simp add: one_document_def)
  have parse: "t_parse ?ext globalConfig ?tree = Inr ?parsed"
    by (simp add: one_document_def)
  from loadFromString_gives_defaults [OF yaml parse]
  show ?thesis by (simp add: parsed_values_def)
qed

text \<open>
  What the two loaders do with a throw. Whatever the \<open>try\<close> block of
  \<open>loadFromString\<close> throws (deserialization and the structural parse are the steps
  that can) becomes the diagnostic line, the rendered error and no result, and
  \<open>loadFromString\<close> returns nothing only then. \<open>load\<close> throws what reading the
  file, deserialization, the structural parse or the constructor throws, and returns an
  object only when all four succeeded.
\<close>

lemma loader_error_contracts:
  "(yaml_load ext content = Inl e \<longrightarrow>
      loadFromString ext content =
        ([''[global-config] Error parsing input, global config undefined'', toString e], None))
   \<and> (yaml_load ext content = Inr tree \<and> t_parse ext globalConfig tree = Inl e \<longrightarrow>
      loadFromString ext content =
        ([''[global-config] Error parsing input, global config undefined'', toString e], None))
   \<and> (loadFromString_try ext content = Inl e \<longrightarrow>
      loadFromString ext content =
        ([''[global-config] Error parsing input, global config undefined'', toString e], None))
   \<and> (snd (loadFromString ext content) = None \<longleftrightarrow>
        (\<exists>e'. loadFromString_try ext content = Inl e'))
   \<and> (fs_readFileSync ext (path_join ext dir FILENAME) = Inl e \<longrightarrow> load ext dir = Inl e)
   \<and> (fs_readFileSync ext (path_join ext dir FILENAME) = Inr buffer
        \<and> yaml_load ext buffer = Inl e \<longrightarrow> load ext dir = Inl e)
   \<and> (fs_readFileSync ext (path_join ext dir FILENAME) = Inr buffer
        \<and> yaml_load ext buffer = Inr tree'
        \<and> t_parse ext globalConfig tree' = Inl e \<longrightarrow> load ext dir = Inl e)
   \<and> (fs_readFileSync ext (path_join ext dir FILENAME) = Inr buffer
        \<and> yaml_load ext buffer = Inr tree'
        \<and> t_parse ext globalConfig tree' = Inr parsed
        \<and> new_GlobalConfig \<lparr>props_homeRegion = homeRegion parsed\<rparr> (Some parsed) = Inl e
        \<longrightarrow> load ext dir = Inl e)
   \<and> (load ext dir = Inr c \<longrightarrow>
        (\<exists>b t p. fs_readFileSync ext (path_join ext dir FILENAME) = Inr b
           \<and> yaml_load ext b = Inr t
           \<and> t_parse ext globalConfig t = Inr p
           \<and> new_GlobalConfig \<lparr>props_homeRegion = homeRegion p\<rparr> (Some p) = Inr c))"
proof (intro conjI impI)
  assume "yaml_load ext content = Inl e"
  then show "loadFromString ext content =
        ([''[global-config] Error parsing input, global config undefined'', toString e], None)"
    by (simp add: loadFromString_def loadFromString_try_def)
next
  assume "yaml_load ext content = Inr tree \<and> t_parse ext globalConfig tree = Inl e"
  then show "loadFromString ext content =
        ([''[global-config] Error parsing input, global config undefined'', toString e], None)"
    by (simp add: loadFromString_def loadFromString_try_def)
next
  assume "loadFromString_try ext content = Inl e"
  then show "loadFromString ext content =
        ([''[global-config] Error parsing input, global config undefined'', toString e], None)"
    by (simp add: loadFromString_def)
next
  show "snd (loadFromString ext content) = None \<longleftrightarrow>
        (\<exists>e'. loadFromString_try ext content = Inl e')"
    by (cases "loadFromString_try ext content") (simp_all add: loadFromString_def)
next
  assume "fs_readFileSync ext (path_join ext dir FILENAME) = Inl e"
  then show "load ext dir = Inl e" by (simp add: load_def)
next
  assume "fs_readFileSync ext (path_join ext dir FILENAME) = Inr buffer
        \<and> yaml_load ext buffer = Inl e"
  then show "load ext dir = Inl e" by (simp add: load_def)
next
  assume "fs_readFileSync ext (path_join ext dir FILENAME) = Inr buffer
        \<and> yaml_load ext buffer = Inr tree'
        \<and> t_parse ext globalConfig tree' = Inl e"
  then show "load ext dir = Inl e" by (simp add: load_def)
next
  assume "fs_readFileSync ext (path_join ext dir FILENAME) = Inr buffer
        \<and> yaml_load ext buffer = Inr tree'
        \<and> t_parse ext globalConfig tree' = Inr parsed
        \<and> new_GlobalConfig \<lparr>props_homeRegion = homeRegion parsed\<rparr> (Some parsed) = Inl e"
  then show "load ext dir = Inl e" by (simp add: load_def)
next
  assume "load ext dir = Inr c"
  then show "\<exists>b t p. fs_readFileSync ext (path_join ext dir FILENAME) = Inr b
           \<and> yaml_load ext b = Inr t
           \<and> t_parse ext globalConfig t = Inr p
           \<and> new_GlobalConfig \<lparr>props_homeRegion = homeRegion p\<rparr> (Some p) = Inr c"
    by (rule load_Inr)
qed

lemma loader_error_contracts_example:
  "loadFromString
     (one_document ''homeRegion: sa-east-1''
        (generic_of_GlobalConfig (parsed_values ''sa-east-1'' [''sa-east-1''] 90))
        (parsed_values ''sa-east-1'' [''sa-east-1''] 90))
     ''homeRegion: [''
     = ([''[global-config] Error parsing input, global config undefined'', ''YAMLException''], None)
   \<and> load no_document ''config'' = Inl (Foreign ''Error: ENOENT'')
   \<and> load
       (one_document ''homeRegion: sa-east-1''
          (generic_of_GlobalConfig (parsed_values ''sa-east-1'' [''sa-east-1''] 90))
          (parsed_values ''sa-east-1'' [''sa-east-1''] 90))
       ''config'' =
     Inl (Error ''global-config.yaml has 1 issues: The region us-east-1 must be included in the list of enabled regions'')"
proof -
  let ?parsed = "parsed_values ''sa-east-1'' [''sa-east-1''] 90"
  let ?tree = "generic_of_GlobalConfig ?parsed"
  let ?ext = "one_document ''homeRegion: sa-east-1'' ?tree ?parsed"
  let ?semantic = "Error ''global-config.yaml has 1 issues: The region us-east-1 must be included in the list of enabled regions''"
  have yaml: "yaml_load ?ext ''homeRegion: ['' = Inl (Foreign ''YAMLException'')"
    by (simp add: one_document_def)
  have missing: "fs_readFileSync no_document (path_join no_document ''config'' FILENAME) =
      Inl (Foreign ''Error: ENOENT'')"
    by (simp add: no_document_def)
  have stages: "fs_readFileSync ?ext (path_join ?ext ''config'' FILENAME) =
        Inr ''homeRegion: sa-east-1''
      \<and> yaml_load ?ext ''homeRegion: sa-east-1'' = Inr ?tree
      \<and> t_parse ?ext globalConfig ?tree = Inr ?parsed"
    by (simp add: one_document_def)
  have errs: "validation_errors (Some ?parsed) =
      [''The region us-east-1 must be included in the list of enabled regions'']"
    by (simp add: validation_errors_def parsed_values_def)
  have rejected: "new_GlobalConfig \<lparr>props_homeRegion = homeRegion ?parsed\<rparr> (Some ?parsed) =
      Inl ?semantic"
    using new_GlobalConfig_throws [of "Some ?parsed" "\<lparr>props_homeRegion = homeRegion ?parsed\<rparr>"]
    by (simp add: errs issues_message_single)
  from loader_error_contracts
         [of ?ext "''homeRegion: [''" "Foreign ''YAMLException''" GNull "''config''"
             "[]" GNull ?parsed ?parsed] yaml
  have first: "loadFromString ?ext ''homeRegion: ['' =
      ([''[global-config] Error parsing input, global config undefined'', ''YAMLException''], None)"
    by simp
  from loader_error_contracts
         [of no_document "[]" "Foreign ''Error: ENOENT''" GNull "''config''"
             "[]" GNull ?parsed ?parsed] missing
  have second: "load no_document ''config'' = Inl (Foreign ''Error: ENOENT'')"
    by simp
  from loader_error_contracts
         [of ?ext "[]" ?semantic GNull "''config''"
             "''homeRegion: sa-east-1''" ?tree ?parsed ?parsed] stages rejected
  have third: "load ?ext ''config'' = Inl ?semantic"
    by blast
  from first second third show ?thesis by (intro conjI)
qed

text \<open>
  C7. The claim is that \<open>loadFromString\<close> logs a diagnostic and returns nothing on every
  kind of failure, a semantic violation included, while \<open>load\<close> hands every failure to
  its caller. The code at a valid document with \<open>homeRegion\<close> ap-southeast-2 and
  \<open>enabledRegions\<close> [ap-southeast-2]: the parsed values break the region rule and the
  constructor given them throws, which is what \<open>load\<close> throws; \<open>loadFromString\<close>
  logs nothing and returns an object.
\<close>

theorem loadFromString_returns_an_object_on_a_semantic_violation:
  "validation_errors (Some (parsed_values ''ap-southeast-2'' [''ap-southeast-2''] 30)) =
     [''The region us-east-1 must be included in the list of enabled regions'']
   \<and> new_GlobalConfig \<lparr>props_homeRegion = ''ap-southeast-2''\<rparr>
       (Some (parsed_values ''ap-southeast-2'' [''ap-southeast-2''] 30)) =
     Inl (Error ''global-config.yaml has 1 issues: The region us-east-1 must be included in the list of enabled regions'')
   \<and> load
       (one_document ''homeRegion: ap-southeast-2''
          (generic_of_GlobalConfig (parsed_values ''ap-southeast-2'' [''ap-southeast-2''] 30))
          (parsed_values ''ap-southeast-2'' [''ap-southeast-2''] 30))
       ''config'' =
     Inl (Error ''global-config.yaml has 1 issues: The region us-east-1 must be included in the list of enabled regions'')
   \<and> fst (loadFromString
       (one_document ''homeRegion: ap-southeast-2''
          (generic_of_GlobalConfig (parsed_values ''ap-southeast-2'' [''ap-southeast-2''] 30))
          (parsed_values ''ap-southeast-2'' [''ap-southeast-2''] 30))
       ''homeRegion: ap-southeast-2'') = []
   \<and> snd (loadFromString
       (one_document ''homeRegion: ap-southeast-2''
          (generic_of_GlobalConfig (parsed_values ''ap-southeast-2'' [''ap-southeast-2''] 30))
          (parsed_values ''ap-southeast-2'' [''ap-southeast-2''] 30))
       ''homeRegion: ap-southeast-2'') =
     Some (parsed_values ''ap-southeast-2'' [''ap-southeast-2''] 365)
   \<and> snd (loadFromString
       (one_document ''homeRegion: ap-southeast-2''
          (generic_of_GlobalConfig (parsed_values ''ap-southeast-2'' [''ap-southeast-2''] 30))
          (parsed_values ''ap-southeast-2'' [''ap-southeast-2''] 30))
       ''homeRegion: ap-southeast-2'') \<noteq> None"
proof -
  let ?parsed = "parsed_values ''ap-southeast-2'' [''ap-southeast-2''] 30"
  let ?ext = "one_document ''homeRegion: ap-southeast-2'' (generic_of_GlobalConfig ?parsed) ?parsed"
  have home: "homeRegion ?parsed = ''ap-southeast-2''"
    by (simp add: parsed_values_def)
  have errs: "validation_errors (Some ?parsed) =
      [''The region us-east-1 must be included in the list of enabled regions'']"
    by (simp add: validation_errors_def parsed_values_def)
  have supplied: "new_GlobalConfig \<lparr>props_homeRegion = ''ap-southeast-2''\<rparr> (Some ?parsed) =
      Inl (Error ''global-config.yaml has 1 issues: The region us-east-1 must be included in the list of enabled regions'')"
    using new_GlobalConfig_throws [of "Some ?parsed" "\<lparr>props_homeRegion = ''ap-southeast-2''\<rparr>"]
    by (simp add: errs issues_message_single)
  have file_based: "load ?ext ''config'' = Inl (Error ''global-config.yaml has 1 issues: The region us-east-1 must be included in the list of enabled regions'')"
    by (simp add: load_def one_document_def home supplied)
  have omitted: "new_GlobalConfig \<lparr>props_homeRegion = ''ap-southeast-2''\<rparr> None =
      Inr (parsed_values ''ap-southeast-2'' [''ap-southeast-2''] 365)"
    by (simp add: new_GlobalConfig_defaults parsed_values_def)
  have "loadFromString_try ?ext ''homeRegion: ap-southeast-2'' =
      Inr (parsed_values ''ap-southeast-2'' [''ap-southeast-2''] 365)"
    by (simp add: loadFromString_try_def one_document_def home omitted)
  then have string_based: "loadFromString ?ext ''homeRegion: ap-southeast-2'' =
      ([], Some (parsed_values ''ap-southeast-2'' [''ap-southeast-2''] 365))"
    by (simp add: loadFromString_def)
  from errs supplied file_based string_based show ?thesis
    by simp
qed

section \<open>The defaults against the schema\<close>

text \<open>
  C10. For every non-empty \<open>homeRegion\<close> of the supported-region set, the object that
  construction without parsed values gives has no structural violation against
  \<open>GlobalConfigTypes.globalConfig\<close>.
\<close>

theorem defaults_are_schema_valid:
  assumes "home \<noteq> []" and "home \<in> set regions"
  shows "\<exists>c. new_GlobalConfig \<lparr>props_homeRegion = home\<rparr> None = Inr c
       \<and> validate regions globalConfig [] (generic_of_GlobalConfig c) = []"
proof -
  let ?c = "\<lparr>homeRegion = home, enabledRegions = [home],
          managementAccountAccessRole = ''AWSControlTowerExecution'',
          cloudwatchLogRetentionInDays = 365,
          controlTower = new_ControlTowerConfig,
          logging = new_LoggingConfig,
          dataProtection = None, reports = None\<rparr>"
  have made: "new_GlobalConfig \<lparr>props_homeRegion = home\<rparr> None = Inr ?c"
    by (rule new_GlobalConfig_defaults)
  have valid: "validate regions globalConfig [] (generic_of_GlobalConfig ?c) = []"
    using assms
    by (simp add: globalConfig_def generic_of_GlobalConfig_def optional_property_def
        generic_of_strings_def validate_default_logging validate_default_controlTower)
  from made valid show ?thesis by blast
qed

theorem defaults_are_schema_valid_witness:
  "''eu-west-1'' \<in> set [''us-east-1'', ''eu-west-1'']
   \<and> (\<exists>c. new_GlobalConfig \<lparr>props_homeRegion = ''eu-west-1''\<rparr> None = Inr c
       \<and> validate [''us-east-1'', ''eu-west-1''] globalConfig [] (generic_of_GlobalConfig c) = [])"
proof -
  have nonempty: "''eu-west-1'' \<noteq> []" by simp
  have member: "''eu-west-1'' \<in> set [''us-east-1'', ''eu-west-1'']" by simp
  from defaults_are_schema_valid [OF nonempty member] member show ?thesis by blast
qed

end
